theory Spec2Isabelle
  imports Complex_Main
begin

section \<open>Python values and exceptions\<close>

text \<open>
  The two scripts, \<^verbatim>\<open>main.py\<close> and \<^verbatim>\<open>delete_all_jobs.py\<close>, handle values that come out
  of \<^verbatim>\<open>json.loads\<close>: \<^verbatim>\<open>None\<close>, booleans, numbers, strings, lists and dictionaries.
  A dictionary is an association list read with \<open>map_of\<close>. Numbers are integers: the
  code only ever tests a number for truth. A string is a list of bytes (UTF-8).
\<close>

datatype json =
    JNull
  | JBool bool
  | JNum int
  | JStr string
  | JList "json list"
  | JObj "(string \<times> json) list"

text \<open>
  The exceptions that the code raises or that its library calls raise. \<open>RequestException\<close>
  stands for every network failure of \<^verbatim>\<open>requests\<close> (connection error, timeout);
  \<open>HTTPError\<close> is what \<^verbatim>\<open>raise_for_status\<close> raises; \<open>Exception\<close> is a plain
  \<^verbatim>\<open>Exception(...)\<close>, its message not modelled.
\<close>

datatype pyexn =
    RequestException
  | HTTPError
  | JSONDecodeError
  | AttributeError
  | TypeError
  | ValueError
  | UnboundLocalError
  | Exception

text \<open>Sequencing of computations that may raise: the first exception wins.\<close>

definition sum_bind :: "pyexn + 'a \<Rightarrow> ('a \<Rightarrow> pyexn + 'b) \<Rightarrow> pyexn + 'b" where
  "sum_bind x f = (case x of Inl e \<Rightarrow> Inl e | Inr v \<Rightarrow> f v)"

text \<open>Python's truth value of an object (\<^verbatim>\<open>if x:\<close>).\<close>

fun truthy :: "json \<Rightarrow> bool" where
  "truthy JNull = False"
| "truthy (JBool b) = b"
| "truthy (JNum n) = (n \<noteq> 0)"
| "truthy (JStr s) = (s \<noteq> [])"
| "truthy (JList xs) = (xs \<noteq> [])"
| "truthy (JObj kvs) = (kvs \<noteq> [])"

text \<open>\<^verbatim>\<open>d.get(key, default)\<close>: only a dictionary has the method.\<close>

fun py_get :: "json \<Rightarrow> string \<Rightarrow> json \<Rightarrow> pyexn + json" where
  "py_get (JObj kvs) key dflt = Inr (case map_of kvs key of Some v \<Rightarrow> v | None \<Rightarrow> dflt)"
| "py_get _ key dflt = Inl AttributeError"

text \<open>
  The elements that a \<^verbatim>\<open>for\<close> over the object visits: the items of a list, the keys of
  a dictionary, the characters of a string; anything else is not iterable.
\<close>

fun py_iter :: "json \<Rightarrow> pyexn + json list" where
  "py_iter (JList xs) = Inr xs"
| "py_iter (JObj kvs) = Inr (map (\<lambda>kv. JStr (fst kv)) kvs)"
| "py_iter (JStr s) = Inr (map (\<lambda>c. JStr [c]) s)"
| "py_iter _ = Inl TypeError"

text \<open>
  \<^verbatim>\<open>s.lower()\<close>. Only the ASCII letters are mapped: on every other code point Python's
  \<^verbatim>\<open>lower\<close> yields no letter of \<^verbatim>\<open>"completed"\<close> or \<^verbatim>\<open>"errored"\<close>, the only strings
  the result is compared with, so the comparisons agree. Only a string has the method.
\<close>

definition lower_char :: "char \<Rightarrow> char" where
  "lower_char c =
     (case map_of (zip ''ABCDEFGHIJKLMNOPQRSTUVWXYZ'' ''abcdefghijklmnopqrstuvwxyz'') c of
        Some l \<Rightarrow> l
      | None \<Rightarrow> c)"

fun py_lower :: "json \<Rightarrow> pyexn + string" where
  "py_lower (JStr s) = Inr (map lower_char s)"
| "py_lower _ = Inl AttributeError"

text \<open>\<^verbatim>\<open>any(e is not None for e in xs)\<close> and \<^verbatim>\<open>all(e is None for e in xs)\<close>,
  \<^verbatim>\<open>all(o is not None for o in xs)\<close>.\<close>

definition any_not_none :: "json \<Rightarrow> pyexn + bool" where
  "any_not_none xs = sum_bind (py_iter xs) (\<lambda>es. Inr (list_ex (\<lambda>e. e \<noteq> JNull) es))"

definition all_none :: "json \<Rightarrow> pyexn + bool" where
  "all_none xs = sum_bind (py_iter xs) (\<lambda>es. Inr (list_all (\<lambda>e. e = JNull) es))"

definition all_not_none :: "json \<Rightarrow> pyexn + bool" where
  "all_not_none xs = sum_bind (py_iter xs) (\<lambda>es. Inr (list_all (\<lambda>e. e \<noteq> JNull) es))"

section \<open>The classification of a run (main.py, poll_run_status, lines 100-122)\<close>

text \<open>
  The body of \<^verbatim>\<open>if run:\<close>. The result is \<open>Some ''completed''\<close> or \<open>Some ''errored''\<close>
  where the code returns that string, and \<open>None\<close> where it falls through to the timeout
  check and keeps polling.
\<close>

definition outputs_ok :: "json \<Rightarrow> json \<Rightarrow> pyexn + bool" where
  "outputs_ok outputs errors =
     (if \<not> truthy outputs then Inr False
      else sum_bind (all_not_none outputs) (\<lambda>a.
        if \<not> a then Inr False
        else if \<not> truthy errors then Inr True
        else all_none errors))"

definition classify :: "json \<Rightarrow> pyexn + string option" where
  "classify run =
     sum_bind (py_get run ''attributes'' (JObj [])) (\<lambda>attributes.
     sum_bind (py_get attributes ''status'' (JStr [])) (\<lambda>status.
     sum_bind (py_get attributes ''fatalErrors'' (JList [])) (\<lambda>fatal_errors.
     sum_bind (py_get attributes ''finishedAt'' JNull) (\<lambda>finished_at.
     sum_bind (if truthy fatal_errors then any_not_none fatal_errors else Inr False) (\<lambda>fatal.
       if fatal then Inr (Some ''errored'')
       else if truthy status then
         sum_bind (py_lower status) (\<lambda>l.
           if l = ''completed'' then Inr (Some ''completed'')
           else if l = ''errored'' then Inr (Some ''errored'')
           else Inr None)
       else if truthy finished_at then
         sum_bind (py_get attributes ''outputs'' (JList [])) (\<lambda>outputs.
         sum_bind (py_get attributes ''errors'' (JList [])) (\<lambda>errors.
         sum_bind (outputs_ok outputs errors) (\<lambda>ok.
           if ok then Inr (Some ''completed'') else Inr (Some ''errored''))))
       else Inr None)))))"

section \<open>The runtime and the world\<close>

text \<open>
  The settings that both scripts read at import, and the library functions whose results
  the code passes on without looking inside: \<^verbatim>\<open>str\<close>, \<^verbatim>\<open>json.loads\<close> (\<open>None\<close> where
  the text is not JSON), \<^verbatim>\<open>json.dumps\<close>, and the conversions of \<^verbatim>\<open>datetime\<close>. A
  naive \<^verbatim>\<open>datetime\<close>, as \<^verbatim>\<open>datetime.now()\<close> and \<^verbatim>\<open>datetime.fromtimestamp(x)\<close> give
  it, is a point on the real line, in seconds, so that \<^verbatim>\<open>timedelta(hours=1)\<close> is 3600;
  clock readings are taken as exact reals. What \<^verbatim>\<open>datetime.fromisoformat\<close> reads is
  naive, or aware when the text carries a UTC offset.
\<close>

datatype datetime = Naive real | Aware real

record runtime =
  BASE_URL :: string
  py_str :: "json \<Rightarrow> string"
  json_loads :: "string \<Rightarrow> json option"
  json_dumps :: "json \<Rightarrow> string"
  isoformat :: "real \<Rightarrow> string"
  fromisoformat :: "string \<Rightarrow> pyexn + datetime"
  fromtimestamp :: "int \<Rightarrow> pyexn + real"

text \<open>
  An HTTP exchange. A cookie of the response's jar has a name, a value and an expiry
  (\<^verbatim>\<open>cookie.expires\<close>, seconds since the epoch or \<^verbatim>\<open>None\<close>). Of a request only the
  method and the URL are kept.
\<close>

record cookie =
  c_name :: string
  c_value :: string
  c_expires :: "int option"

record response =
  status_code :: int
  content :: string
  cookies :: "cookie list"

datatype http_result = NetworkError | Response response

datatype request = GET string | POST string | DELETE string

text \<open>What reading \<^verbatim>\<open>config.toml\<close> gives (create_job handles the three cases).\<close>

datatype file_read = FileNotFound | ReadError | Contents string

text \<open>
  The world outside the process: how the coming requests will be answered (\<open>net\<close>), what
  the coming readings of the clock will be (\<open>clock\<close>), the text of the credential file
  \<^verbatim>\<open>chainlink_token.json\<close> (\<open>None\<close> when it does not exist), \<^verbatim>\<open>config.toml\<close>, and the
  history so far: the exchanges made and the clock readings taken, most recent first.
  Console output is not modelled.
\<close>

record world =
  net :: "http_result list"
  clock :: "real list"
  token_file :: "string option"
  config_toml :: file_read
  exchanges :: "(request \<times> http_result) list"
  readings :: "real list"

text \<open>
  How a call ends: it returns a value, an exception propagates, \<^verbatim>\<open>sys.exit\<close> was
  called, or the script of the world ran out before the call ended (\<open>Stuck\<close>).
\<close>

datatype 'a outcome = Return 'a | Raise pyexn | Exit int | Stuck

type_synonym 'a io = "world \<Rightarrow> 'a outcome \<times> world"

definition return :: "'a \<Rightarrow> 'a io" where
  "return x w = (Return x, w)"

definition raise :: "pyexn \<Rightarrow> 'a io" where
  "raise e w = (Raise e, w)"

definition sys_exit :: "int \<Rightarrow> 'a io" where
  "sys_exit n w = (Exit n, w)"

definition lift :: "pyexn + 'a \<Rightarrow> 'a io" where
  "lift x w = (case x of Inl e \<Rightarrow> (Raise e, w) | Inr v \<Rightarrow> (Return v, w))"

definition and_then :: "'a io \<Rightarrow> ('a \<Rightarrow> 'b io) \<Rightarrow> 'b io" where
  "and_then m f w =
     (case m w of
        (Return x, w') \<Rightarrow> f x w'
      | (Raise e, w') \<Rightarrow> (Raise e, w')
      | (Exit n, w') \<Rightarrow> (Exit n, w')
      | (Stuck, w') \<Rightarrow> (Stuck, w'))"

text \<open>
  \<^verbatim>\<open>try: m except ...\<close>: the handler says which exceptions it catches (\<open>Some\<close> of what
  runs then) and which it lets through.
\<close>

definition try_except :: "'a io \<Rightarrow> (pyexn \<Rightarrow> 'a io option) \<Rightarrow> 'a io" where
  "try_except m handler w =
     (case m w of
        (Raise e, w') \<Rightarrow> (case handler e of Some h \<Rightarrow> h w' | None \<Rightarrow> (Raise e, w'))
      | (Return x, w') \<Rightarrow> (Return x, w')
      | (Exit n, w') \<Rightarrow> (Exit n, w')
      | (Stuck, w') \<Rightarrow> (Stuck, w'))"

text \<open>\<^verbatim>\<open>except requests.exceptions.RequestException\<close> catches these.\<close>

definition is_request_exception :: "pyexn \<Rightarrow> bool" where
  "is_request_exception e = (e = RequestException \<or> e = HTTPError)"

text \<open>
  \<^verbatim>\<open>requests.get\<close>, \<^verbatim>\<open>requests.post\<close>, \<^verbatim>\<open>requests.delete\<close>: the next answer of the
  network, recorded in the history. A network failure raises.
\<close>

definition send :: "request \<Rightarrow> response io" where
  "send rq w =
     (case net w of
        [] \<Rightarrow> (Stuck, w)
      | r # rest \<Rightarrow>
          (let w' = w\<lparr>net := rest, exchanges := (rq, r) # exchanges w\<rparr>
           in case r of
                NetworkError \<Rightarrow> (Raise RequestException, w')
              | Response resp \<Rightarrow> (Return resp, w')))"

text \<open>\<^verbatim>\<open>response.raise_for_status()\<close>: raises on a 4xx or 5xx status.\<close>

definition raise_for_status :: "response \<Rightarrow> unit io" where
  "raise_for_status resp =
     (if 400 \<le> status_code resp \<and> status_code resp < 600 then raise HTTPError else return ())"

text \<open>\<^verbatim>\<open>response.json()\<close>.\<close>

definition response_json :: "runtime \<Rightarrow> response \<Rightarrow> pyexn + json" where
  "response_json R resp =
     (case json_loads R (content resp) of None \<Rightarrow> Inl JSONDecodeError | Some j \<Rightarrow> Inr j)"

text \<open>\<^verbatim>\<open>time.time()\<close> and \<^verbatim>\<open>datetime.now()\<close>: the next reading of the clock.\<close>

definition now :: "real io" where
  "now w =
     (case clock w of
        [] \<Rightarrow> (Stuck, w)
      | t # rest \<Rightarrow> (Return t, w\<lparr>clock := rest, readings := t # readings w\<rparr>))"

text \<open>
  The credential file: \<^verbatim>\<open>open(TOKEN_FILE, "w")\<close> creates the file or truncates it to
  nothing, and each write appends to what the file holds then.
\<close>

definition open_w :: "unit io" where
  "open_w w = (Return (), w\<lparr>token_file := Some []\<rparr>)"

definition file_write :: "string \<Rightarrow> unit io" where
  "file_write s w =
     (Return (), w\<lparr>token_file := Some ((case token_file w of None \<Rightarrow> [] | Some old \<Rightarrow> old) @ s)\<rparr>)"

text \<open>The URLs, as the f-strings build them.\<close>

definition SESSION_URL :: "runtime \<Rightarrow> string" where
  "SESSION_URL R = BASE_URL R @ ''/sessions''"

definition jobs_url :: "runtime \<Rightarrow> string" where
  "jobs_url R = BASE_URL R @ ''/v2/jobs''"

definition job_endpoint :: "runtime \<Rightarrow> json \<Rightarrow> string" where
  "job_endpoint R job_id = BASE_URL R @ ''/v2/jobs/'' @ py_str R job_id"

definition runs_url :: "runtime \<Rightarrow> json \<Rightarrow> string" where
  "runs_url R job_id = BASE_URL R @ ''/v2/jobs/'' @ py_str R job_id @ ''/runs''"

section \<open>The session manager (both scripts)\<close>

text \<open>\<^verbatim>\<open>datetime.fromisoformat(x)\<close>: the argument must be a string.\<close>

fun py_fromisoformat :: "runtime \<Rightarrow> json \<Rightarrow> pyexn + datetime" where
  "py_fromisoformat R (JStr s) = fromisoformat R s"
| "py_fromisoformat R _ = Inl TypeError"

text \<open>
  \<^verbatim>\<open>datetime.now() < expiration\<close>: the reading of the clock is naive, and comparing it
  with an aware \<^verbatim>\<open>datetime\<close> raises TypeError.
\<close>

fun now_before :: "real \<Rightarrow> datetime \<Rightarrow> pyexn + bool" where
  "now_before n (Naive expiration) = Inr (n < expiration)"
| "now_before n (Aware expiration) = Inl TypeError"

text \<open>get_saved_token: \<open>(JNull, JNull)\<close> is the pair \<^verbatim>\<open>None, None\<close>.\<close>

definition get_saved_token :: "runtime \<Rightarrow> (json \<times> json) io" where
  "get_saved_token R w =
     (case token_file w of
        None \<Rightarrow> (Return (JNull, JNull), w)
      | Some txt \<Rightarrow>
          (case json_loads R txt of
             None \<Rightarrow> (Raise JSONDecodeError, w)
           | Some data \<Rightarrow>
               and_then (lift (py_get data ''token'' JNull)) (\<lambda>token.
               and_then (lift (py_get data ''cookie_name'' JNull)) (\<lambda>cookie_name.
               and_then (lift (py_get data ''expires'' JNull)) (\<lambda>expires_str.
                 if truthy token \<and> truthy cookie_name \<and> truthy expires_str then
                   and_then (lift (py_fromisoformat R expires_str)) (\<lambda>expiration.
                   and_then now (\<lambda>n.
                   and_then (lift (now_before n expiration)) (\<lambda>unexpired.
                     if unexpired then return (cookie_name, token)
                     else return (JNull, JNull))))
                 else return (JNull, JNull)))) w))"

definition save_token :: "runtime \<Rightarrow> string \<Rightarrow> string \<Rightarrow> real \<Rightarrow> unit io" where
  "save_token R cookie_name token expiration =
     (let data = JObj [(''cookie_name'', JStr cookie_name),
                       (''token'', JStr token),
                       (''expires'', JStr (isoformat R expiration))]
      in and_then open_w (\<lambda>_. file_write (json_dumps R data)))"

text \<open>
  The part of login that both scripts share (main.py lines 70-78): the first cookie is
  the credential; its expiry is used when \<^verbatim>\<open>cookie.expires\<close> is true, else one hour
  from now.
\<close>

definition expiration_of :: "runtime \<Rightarrow> cookie \<Rightarrow> real io" where
  "expiration_of R c =
     (case c_expires c of
        Some e \<Rightarrow>
          if e \<noteq> 0 then lift (fromtimestamp R e)
          else and_then now (\<lambda>n. return (n + 3600))
      | None \<Rightarrow> and_then now (\<lambda>n. return (n + 3600)))"


definition take_cookie :: "runtime \<Rightarrow> response \<Rightarrow> (json \<times> json) io" where
  "take_cookie R resp =
     (case cookies resp of
        c # _ \<Rightarrow>
          and_then (expiration_of R c) (\<lambda>expiration.
          and_then (save_token R (c_name c) (c_value c) expiration) (\<lambda>_.
          return (JStr (c_name c), JStr (c_value c))))
      | [] \<Rightarrow> raise Exception)"

text \<open>login of main.py.\<close>

definition login :: "runtime \<Rightarrow> (json \<times> json) io" where
  "login R =
     and_then (send (POST (SESSION_URL R))) (\<lambda>resp.
       if status_code resp = 200 then take_cookie R resp
       else raise Exception)"

text \<open>
  login of delete_all_jobs.py: whatever is raised inside the \<^verbatim>\<open>try\<close>, by either
  handler a plain \<^verbatim>\<open>Exception\<close> leaves.
\<close>

definition login_daj :: "runtime \<Rightarrow> (json \<times> json) io" where
  "login_daj R =
     try_except
       (and_then (send (POST (SESSION_URL R))) (\<lambda>resp.
        and_then (raise_for_status resp) (\<lambda>_.
        take_cookie R resp)))
       (\<lambda>e. if is_request_exception e then Some (raise Exception) else Some (raise Exception))"

text \<open>
  The authentication block that opens \<^verbatim>\<open>main\<close> in both scripts (main.py lines 252-272,
  delete_all_jobs.py lines 141-154), over the script's own login.
\<close>

definition authenticate :: "runtime \<Rightarrow> (json \<times> json) io \<Rightarrow> (json \<times> json) io" where
  "authenticate R the_login =
     and_then (get_saved_token R) (\<lambda>(cookie_name, token).
     and_then (if truthy token then return (cookie_name, token)
               else try_except the_login (\<lambda>e. Some (sys_exit 1))) (\<lambda>(cookie_name, token).
       if \<not> truthy token \<or> \<not> truthy cookie_name then sys_exit 1
       else return (cookie_name, token)))"

section \<open>The job run poller (main.py)\<close>

text \<open>
  \<^verbatim>\<open>next((r for r in runs if str(r.get("id")) == str(job_run_id)), None)\<close>: the first
  entry whose id prints like the run id, \<^verbatim>\<open>None\<close> when there is none.
\<close>

fun find_run :: "runtime \<Rightarrow> json \<Rightarrow> json list \<Rightarrow> pyexn + json" where
  "find_run R job_run_id [] = Inr JNull"
| "find_run R job_run_id (r # rs) =
     sum_bind (py_get r ''id'' JNull) (\<lambda>i.
       if py_str R i = py_str R job_run_id then Inr r
       else find_run R job_run_id rs)"

text \<open>
  What one iteration makes of a listing that came with status 200 (lines 97-124): the
  classification of the matching run, and \<open>None\<close> (keep polling) when the run is not in
  the listing.
\<close>

definition inspect_listing :: "runtime \<Rightarrow> json \<Rightarrow> response \<Rightarrow> pyexn + string option" where
  "inspect_listing R job_run_id resp =
     sum_bind (response_json R resp) (\<lambda>body.
     sum_bind (py_get body ''data'' (JList [])) (\<lambda>runs.
     sum_bind (py_iter runs) (\<lambda>rs.
     sum_bind (find_run R job_run_id rs) (\<lambda>run.
       if truthy run then classify run else Inr None))))"

text \<open>
  The loop \<^verbatim>\<open>while True\<close> of poll_run_status. Every iteration takes one answer from the
  network, so the recursion ends with the world's script at the latest.
  \<^verbatim>\<open>time.sleep(2)\<close> only lets time pass; the clock readings are the world's.
\<close>

function poll_loop :: "runtime \<Rightarrow> json \<Rightarrow> json \<Rightarrow> real \<Rightarrow> real \<Rightarrow> string option io" where
  "poll_loop R job_id job_run_id timeout start_time w =
     (case send (GET (runs_url R job_id)) w of
        (Return resp, w1) \<Rightarrow>
          if status_code resp = 200 then
            (case inspect_listing R job_run_id resp of
               Inl e \<Rightarrow> (Raise e, w1)
             | Inr (Some verdict) \<Rightarrow> (Return (Some verdict), w1)
             | Inr None \<Rightarrow>
                 (case now w1 of
                    (Return t, w2) \<Rightarrow>
                      if t - start_time > timeout then (Return None, w2)
                      else poll_loop R job_id job_run_id timeout start_time w2
                  | (Raise e, w2) \<Rightarrow> (Raise e, w2)
                  | (Exit n, w2) \<Rightarrow> (Exit n, w2)
                  | (Stuck, w2) \<Rightarrow> (Stuck, w2)))
          else (Return None, w1)
      | (Raise e, w1) \<Rightarrow> (Raise e, w1)
      | (Exit n, w1) \<Rightarrow> (Exit n, w1)
      | (Stuck, w1) \<Rightarrow> (Stuck, w1))"
  by pat_completeness auto

termination poll_loop
  by (relation "measure (\<lambda>(R, job_id, job_run_id, timeout, start_time, w). length (net w))")
     (auto simp: send_def now_def Let_def split: list.splits http_result.splits)

definition poll_run_status ::
  "runtime \<Rightarrow> json \<Rightarrow> json \<Rightarrow> json \<Rightarrow> json \<Rightarrow> real \<Rightarrow> string option io" where
  "poll_run_status R job_id job_run_id cookie_name token timeout =
     and_then now (\<lambda>start_time. poll_loop R job_id job_run_id timeout start_time)"

section \<open>The API operations of main.py\<close>

definition run_job :: "runtime \<Rightarrow> json \<Rightarrow> json \<Rightarrow> json \<Rightarrow> bool io" where
  "run_job R job_id cookie_name token =
     and_then (send (POST (runs_url R job_id))) (\<lambda>resp.
       if status_code resp = 200 \<or> status_code resp = 201 then
         and_then (lift (response_json R resp)) (\<lambda>result_json.
         and_then (lift (sum_bind (py_get result_json ''data'' (JObj []))
                           (\<lambda>d. py_get d ''id'' JNull))) (\<lambda>job_run_id.
           if \<not> truthy job_run_id then return False
           else
             and_then (poll_run_status R job_id job_run_id cookie_name token 60) (\<lambda>status.
               if status = Some ''completed'' then return True
               else if status = Some ''errored'' then return False
               else return False)))
       else return False)"

text \<open>list_jobs returns nothing; printing the listing decodes the body.\<close>

definition list_jobs :: "runtime \<Rightarrow> json \<Rightarrow> json \<Rightarrow> unit io" where
  "list_jobs R cookie_name token =
     and_then (send (GET (jobs_url R))) (\<lambda>resp.
       if status_code resp = 200 then
         and_then (lift (response_json R resp)) (\<lambda>_. return ())
       else return ())"

text \<open>create_job returns the id of the new job, or \<open>JNull\<close> for \<^verbatim>\<open>None\<close>.\<close>

definition create_job :: "runtime \<Rightarrow> json \<Rightarrow> json \<Rightarrow> json io" where
  "create_job R cookie_name token w =
     (case config_toml w of
        FileNotFound \<Rightarrow> (Return JNull, w)
      | ReadError \<Rightarrow> (Return JNull, w)
      | Contents toml_spec \<Rightarrow>
          and_then (send (POST (jobs_url R))) (\<lambda>resp.
            if status_code resp = 200 \<or> status_code resp = 201 then
              and_then (lift (response_json R resp)) (\<lambda>body.
              and_then (lift (py_get body ''data'' (JObj []))) (\<lambda>data.
              and_then (lift (py_get data ''id'' JNull)) (\<lambda>job_id.
                if truthy job_id then return job_id else return JNull)))
            else return JNull) w)"

text \<open>delete_job of main.py: the response is not looked at.\<close>

definition delete_job :: "runtime \<Rightarrow> json \<Rightarrow> json \<Rightarrow> json \<Rightarrow> unit io" where
  "delete_job R cookie_name token job_id =
     and_then (send (DELETE (job_endpoint R job_id))) (\<lambda>resp. return ())"

text \<open>
  main of main.py. Python's main returns nothing; the model returns the last value of
  main's local variable \<^verbatim>\<open>STATUS\<close>, which the caller has no way to read, so that
  theorems can speak of it. In the \<^verbatim>\<open>finally\<close> block \<^verbatim>\<open>job_id\<close> is unbound when
  create_job did not return.
\<close>

definition main :: "runtime \<Rightarrow> bool \<Rightarrow> bool io" where
  "main R STATUS =
     and_then (try_except
                 (and_then (send (GET (BASE_URL R))) raise_for_status)
                 (\<lambda>e. if is_request_exception e then Some (return ()) else None)) (\<lambda>_.
     and_then (authenticate R (login R)) (\<lambda>(cookie_name, token) w.
       case create_job R cookie_name token w of
         (Return job_id, w1) \<Rightarrow>
           if job_id \<noteq> JNull then
             (case run_job R job_id cookie_name token w1 of
                (Return s, w2) \<Rightarrow>
                  and_then (delete_job R cookie_name token job_id) (\<lambda>_. return s) w2
              | (Raise e, w2) \<Rightarrow>
                  and_then (delete_job R cookie_name token job_id) (\<lambda>_. raise e) w2
              | (Exit n, w2) \<Rightarrow>
                  and_then (delete_job R cookie_name token job_id) (\<lambda>_. sys_exit n) w2
              | (Stuck, w2) \<Rightarrow> (Stuck, w2))
           else (Return True, w1)
       | (Raise e, w1) \<Rightarrow> (Raise UnboundLocalError, w1)
       | (Exit n, w1) \<Rightarrow> (Raise UnboundLocalError, w1)
       | (Stuck, w1) \<Rightarrow> (Stuck, w1)))"

text \<open>
  The \<^verbatim>\<open>__main__\<close> block of main.py, with the module's own \<^verbatim>\<open>STATUS\<close>. The result is
  the exit code of the process: 1 after an uncaught exception; \<open>None\<close> when the world's
  script ran out.
\<close>

definition main_py :: "runtime \<Rightarrow> world \<Rightarrow> int option \<times> world" where
  "main_py R w =
     (let STATUS = False
      in case main R STATUS w of
           (Return _, w') \<Rightarrow> if STATUS then (Some 0, w') else (Some 1, w')
         | (Raise e, w') \<Rightarrow> (Some 1, w')
         | (Exit n, w') \<Rightarrow> (Some n, w')
         | (Stuck, w') \<Rightarrow> (None, w'))"

section \<open>delete_all_jobs.py\<close>

text \<open>\<^verbatim>\<open>[job.get("id") for job in jobs_data if job.get("id")]\<close>.\<close>

fun collect_ids :: "json list \<Rightarrow> pyexn + json list" where
  "collect_ids [] = Inr []"
| "collect_ids (job # jobs) =
     sum_bind (py_get job ''id'' JNull) (\<lambda>i.
       if truthy i then sum_bind (collect_ids jobs) (\<lambda>rest. Inr (i # rest))
       else collect_ids jobs)"

definition list_job_ids :: "runtime \<Rightarrow> json \<Rightarrow> json \<Rightarrow> json list io" where
  "list_job_ids R cookie_name token =
     try_except
       (and_then (send (GET (jobs_url R))) (\<lambda>resp.
        and_then (raise_for_status resp) (\<lambda>_.
        and_then (lift (response_json R resp)) (\<lambda>body.
        and_then (lift (py_get body ''data'' (JList []))) (\<lambda>jobs_data.
        and_then (lift (py_iter jobs_data)) (\<lambda>jobs.
        lift (collect_ids jobs)))))))
       (\<lambda>e. if is_request_exception e then Some (return [])
            else if e = JSONDecodeError then Some (return [])
            else None)"

definition delete_job_daj :: "runtime \<Rightarrow> json \<Rightarrow> json \<Rightarrow> json \<Rightarrow> bool io" where
  "delete_job_daj R cookie_name token job_id =
     try_except
       (and_then (send (DELETE (job_endpoint R job_id))) (\<lambda>resp.
          if status_code resp = 200 \<or> status_code resp = 204 then return True
          else return False))
       (\<lambda>e. if is_request_exception e then Some (return False) else None)"

text \<open>The loop \<^verbatim>\<open>for job_id in job_ids\<close> of main, with its two counters.\<close>

fun delete_each ::
  "runtime \<Rightarrow> json \<Rightarrow> json \<Rightarrow> json list \<Rightarrow> nat \<Rightarrow> nat \<Rightarrow> (nat \<times> nat) io" where
  "delete_each R cookie_name token [] deleted_count failed_count =
     return (deleted_count, failed_count)"
| "delete_each R cookie_name token (job_id # job_ids) deleted_count failed_count =
     and_then (delete_job_daj R cookie_name token job_id) (\<lambda>ok.
       if ok then delete_each R cookie_name token job_ids (deleted_count + 1) failed_count
       else delete_each R cookie_name token job_ids deleted_count (failed_count + 1))"

definition main_daj :: "runtime \<Rightarrow> unit io" where
  "main_daj R =
     and_then (authenticate R (login_daj R)) (\<lambda>(cookie_name, token).
     and_then (list_job_ids R cookie_name token) (\<lambda>job_ids.
       if job_ids = [] then sys_exit 0
       else
         and_then (delete_each R cookie_name token job_ids 0 0) (\<lambda>(deleted_count, failed_count).
           if failed_count > 0 then sys_exit 1 else sys_exit 0)))"

text \<open>The process of delete_all_jobs.py and its exit code.\<close>

definition delete_all_jobs_py :: "runtime \<Rightarrow> world \<Rightarrow> int option \<times> world" where
  "delete_all_jobs_py R w =
     (case main_daj R w of
        (Return _, w') \<Rightarrow> (Some 0, w')
      | (Raise e, w') \<Rightarrow> (Some 1, w')
      | (Exit n, w') \<Rightarrow> (Some n, w')
      | (Stuck, w') \<Rightarrow> (None, w'))"

section \<open>The precedence rule, in the words of the specification\<close>

text \<open>
  A run record of the data model: a dictionary whose \<^verbatim>\<open>attributes\<close>, when given, is a
  dictionary with the optional fields \<^verbatim>\<open>status\<close> (a string), \<^verbatim>\<open>fatalErrors\<close>,
  \<^verbatim>\<open>outputs\<close>, \<^verbatim>\<open>errors\<close> (lists) and \<^verbatim>\<open>finishedAt\<close> (a timestamp). A field that is
  absent reads as null, as a field that is null does.
\<close>

definition field :: "json \<Rightarrow> string \<Rightarrow> json" where
  "field run key =
     (case run of
        JObj kvs \<Rightarrow>
          (case map_of kvs ''attributes'' of
             Some (JObj attrs) \<Rightarrow> (case map_of attrs key of Some v \<Rightarrow> v | None \<Rightarrow> JNull)
           | _ \<Rightarrow> JNull)
      | _ \<Rightarrow> JNull)"

fun entries :: "json \<Rightarrow> json list" where
  "entries (JList xs) = xs"
| "entries _ = []"

fun text_of :: "json \<Rightarrow> string" where
  "text_of (JStr s) = s"
| "text_of _ = []"

fun opt_list :: "json \<Rightarrow> bool" where
  "opt_list JNull = True"
| "opt_list (JList xs) = True"
| "opt_list _ = False"

fun opt_string :: "json \<Rightarrow> bool" where
  "opt_string JNull = True"
| "opt_string (JStr s) = True"
| "opt_string _ = False"

text \<open>A timestamp that is given is not an empty value (\<^verbatim>\<open>""\<close>, \<^verbatim>\<open>0\<close>, \<^verbatim>\<open>false\<close>).\<close>

definition opt_timestamp :: "json \<Rightarrow> bool" where
  "opt_timestamp v = (v = JNull \<or> truthy v)"

fun has_attributes :: "json \<Rightarrow> bool" where
  "has_attributes (JObj kvs) =
     (case map_of kvs ''attributes'' of None \<Rightarrow> True | Some (JObj attrs) \<Rightarrow> True | _ \<Rightarrow> False)"
| "has_attributes _ = False"

definition run_record :: "json \<Rightarrow> bool" where
  "run_record run =
     (has_attributes run \<and>
      opt_string (field run ''status'') \<and>
      opt_list (field run ''fatalErrors'') \<and>
      opt_timestamp (field run ''finishedAt'') \<and>
      opt_list (field run ''outputs'') \<and>
      opt_list (field run ''errors''))"

text \<open>
  The four steps of the precedence rule (specification, section 3), over the fields of
  the record; \<open>None\<close> is "still pending, continue polling".
\<close>

definition spec_classification :: "json \<Rightarrow> string option" where
  "spec_classification run =
     (let status = text_of (field run ''status'');
          fatalErrors = entries (field run ''fatalErrors'');
          finishedAt = field run ''finishedAt'';
          outputs = entries (field run ''outputs'');
          errors = entries (field run ''errors'')
      in if list_ex (\<lambda>e. e \<noteq> JNull) fatalErrors then Some ''errored''
         else if status \<noteq> [] then
           (if map lower_char status = ''completed'' then Some ''completed''
            else if map lower_char status = ''errored'' then Some ''errored''
            else None)
         else if finishedAt \<noteq> JNull then
           (if outputs \<noteq> [] \<and> list_all (\<lambda>out. out \<noteq> JNull) outputs \<and>
               (errors = [] \<or> list_all (\<lambda>e. e = JNull) errors)
            then Some ''completed'' else Some ''errored'')
         else None)"

text \<open>Two records that agree on the fields the rule reads.\<close>

definition same_fields :: "json \<Rightarrow> json \<Rightarrow> bool" where
  "same_fields a b =
     list_all (\<lambda>key. field a key = field b key)
       [''status'', ''fatalErrors'', ''finishedAt'', ''outputs'', ''errors'']"

section \<open>Reading the history, and a runtime for worked examples\<close>

text \<open>The answer to the most recent request, and the most recent clock reading.\<close>

definition last_response :: "world \<Rightarrow> response option" where
  "last_response w =
     (case exchanges w of
        (rq, Response resp) # _ \<Rightarrow> Some resp
      | _ \<Rightarrow> None)"

definition last_reading :: "world \<Rightarrow> real option" where
  "last_reading w = (case readings w of t # _ \<Rightarrow> Some t | [] \<Rightarrow> None)"

text \<open>
  A runtime on which the definitions can be evaluated: \<^verbatim>\<open>str\<close> of a string is the
  string, and a text stands for the JSON document that the table gives it.
\<close>

definition example_loads :: "string \<Rightarrow> json option" where
  "example_loads txt =
     map_of
       [(''<credential>'',
         JObj [(''cookie_name'', JStr ''clsession''), (''token'', JStr ''abc''),
               (''expires'', JStr ''<iso 2000>'')]),
        (''<credential with offset>'',
         JObj [(''cookie_name'', JStr ''clsession''), (''token'', JStr ''abc''),
               (''expires'', JStr ''<iso 2000+00:00>'')]),
        (''<job J1>'', JObj [(''data'', JObj [(''id'', JStr ''J1'')])]),
        (''<run 7>'', JObj [(''data'', JObj [(''id'', JStr ''7'')])]),
        (''<run 7 completed>'',
         JObj [(''data'',
                JList [JObj [(''id'', JStr ''7''),
                             (''attributes'', JObj [(''status'', JStr ''completed'')])]])]),
        (''<run 7 running>'',
         JObj [(''data'',
                JList [JObj [(''id'', JStr ''7''),
                             (''attributes'', JObj [(''status'', JStr ''running'')])]])]),
        (''<no jobs>'', JObj [(''data'', JList [])])]
       txt"

definition example_runtime :: runtime where
  "example_runtime =
     \<lparr>BASE_URL = ''http://node'',
      py_str = text_of,
      json_loads = example_loads,
      json_dumps = (\<lambda>j. ''<json>''),
      isoformat = (\<lambda>t. ''<iso>''),
      fromisoformat =
        (\<lambda>s. if s = ''<iso 2000>'' then Inr (Naive 2000)
             else if s = ''<iso 2000+00:00>'' then Inr (Aware 2000)
             else Inl ValueError),
      fromtimestamp =
        (\<lambda>n. if 0 \<le> n \<and> n \<le> 253402300799 then Inr (of_int n) else Inl ValueError)\<rparr>"

definition example_world :: "http_result list \<Rightarrow> real list \<Rightarrow> string option \<Rightarrow> world" where
  "example_world answers ticks file =
     \<lparr>net = answers, clock = ticks, token_file = file,
      config_toml = Contents ''type = cron'', exchanges = [], readings = []\<rparr>"

definition answer :: "int \<Rightarrow> string \<Rightarrow> http_result" where
  "answer code body = Response \<lparr>status_code = code, content = body, cookies = []\<rparr>"

section \<open>The classification follows the precedence rule\<close>

lemma sum_bind_Inr: "sum_bind (Inr v) f = f v"
  by (simp add: sum_bind_def)

lemma get_attributes:
  assumes "has_attributes run"
  shows "\<exists>attrs. py_get run ''attributes'' (JObj []) = Inr (JObj attrs) \<and>
    (\<forall>key. field run key = (case map_of attrs key of Some v \<Rightarrow> v | None \<Rightarrow> JNull))"
proof (cases run)
  case (JObj kvs)
  show ?thesis
  proof (cases "map_of kvs ''attributes''")
    case None
    with JObj show ?thesis by (simp add: field_def)
  next
    case (Some a)
    with JObj assms obtain attrs where "a = JObj attrs" by (cases a) simp_all
    with JObj Some show ?thesis by (simp add: field_def)
  qed
qed (use assms in simp_all)

lemma fatal_check:
  "opt_list v \<Longrightarrow>
   (if truthy v then any_not_none v else Inr False) = Inr (list_ex (\<lambda>e. e \<noteq> JNull) (entries v))"
  by (cases v) (simp_all add: any_not_none_def sum_bind_def)

lemma status_check:
  "opt_string v \<Longrightarrow>
   (if truthy v then sum_bind (py_lower v) f else g) =
   (if text_of v \<noteq> [] then f (map lower_char (text_of v)) else g)"
  by (cases v) (simp_all add: sum_bind_def)

lemma finished_check: "opt_timestamp v \<Longrightarrow> truthy v = (v \<noteq> JNull)"
  by (auto simp: opt_timestamp_def)

lemma outputs_check:
  "opt_list a \<Longrightarrow> opt_list b \<Longrightarrow>
   outputs_ok a b =
   Inr (entries a \<noteq> [] \<and> list_all (\<lambda>out. out \<noteq> JNull) (entries a) \<and>
        (entries b = [] \<or> list_all (\<lambda>e. e = JNull) (entries b)))"
  by (cases a; cases b)
     (simp_all add: outputs_ok_def all_not_none_def all_none_def sum_bind_def)

lemma default_list:
  "opt_list (case m of Some v \<Rightarrow> v | None \<Rightarrow> JNull) \<Longrightarrow>
   opt_list (case m of Some v \<Rightarrow> v | None \<Rightarrow> JList []) \<and>
   entries (case m of Some v \<Rightarrow> v | None \<Rightarrow> JList []) =
   entries (case m of Some v \<Rightarrow> v | None \<Rightarrow> JNull)"
  by (cases m) simp_all

lemma default_string:
  "opt_string (case m of Some v \<Rightarrow> v | None \<Rightarrow> JNull) \<Longrightarrow>
   opt_string (case m of Some v \<Rightarrow> v | None \<Rightarrow> JStr []) \<and>
   text_of (case m of Some v \<Rightarrow> v | None \<Rightarrow> JStr []) =
   text_of (case m of Some v \<Rightarrow> v | None \<Rightarrow> JNull)"
  by (cases m) simp_all

lemma classify_follows_rule:
  assumes "run_record run"
  shows "classify run = Inr (spec_classification run)"
proof -
  from assms have "has_attributes run" by (simp add: run_record_def)
  from get_attributes [OF this] obtain attrs where a: "py_get run ''attributes'' (JObj []) = Inr (JObj attrs)"
    and f: "\<forall>key. field run key = (case map_of attrs key of Some v \<Rightarrow> v | None \<Rightarrow> JNull)"
    by (elim exE conjE)
  define st where "st = (case map_of attrs ''status'' of Some v \<Rightarrow> v | None \<Rightarrow> JStr [])"
  define fe where "fe = (case map_of attrs ''fatalErrors'' of Some v \<Rightarrow> v | None \<Rightarrow> JList [])"
  define fin where "fin = (case map_of attrs ''finishedAt'' of Some v \<Rightarrow> v | None \<Rightarrow> JNull)"
  define out where "out = (case map_of attrs ''outputs'' of Some v \<Rightarrow> v | None \<Rightarrow> JList [])"
  define err where "err = (case map_of attrs ''errors'' of Some v \<Rightarrow> v | None \<Rightarrow> JList [])"
  from assms f have st: "opt_string st" "text_of st = text_of (field run ''status'')"
    using default_string [of "map_of attrs ''status''"] by (simp_all add: run_record_def st_def)
  from assms f have fe: "opt_list fe" "entries fe = entries (field run ''fatalErrors'')"
    using default_list [of "map_of attrs ''fatalErrors''"] by (simp_all add: run_record_def fe_def)
  from assms f have out: "opt_list out" "entries out = entries (field run ''outputs'')"
    using default_list [of "map_of attrs ''outputs''"] by (simp_all add: run_record_def out_def)
  from assms f have err: "opt_list err" "entries err = entries (field run ''errors'')"
    using default_list [of "map_of attrs ''errors''"] by (simp_all add: run_record_def err_def)
  from assms f have fin: "opt_timestamp fin" "fin = field run ''finishedAt''"
    by (simp_all add: run_record_def fin_def)
  have "classify run =
    sum_bind (if truthy fe then any_not_none fe else Inr False) (\<lambda>fatal.
       if fatal then Inr (Some ''errored'')
       else if truthy st then
         sum_bind (py_lower st) (\<lambda>l.
           if l = ''completed'' then Inr (Some ''completed'')
           else if l = ''errored'' then Inr (Some ''errored'')
           else Inr None)
       else if truthy fin then
         sum_bind (outputs_ok out err) (\<lambda>ok.
           if ok then Inr (Some ''completed'') else Inr (Some ''errored''))
       else Inr None)"
  proof -
    have g: "py_get (JObj attrs) ''status'' (JStr []) = Inr st"
      "py_get (JObj attrs) ''fatalErrors'' (JList []) = Inr fe"
      "py_get (JObj attrs) ''finishedAt'' JNull = Inr fin"
      "py_get (JObj attrs) ''outputs'' (JList []) = Inr out"
      "py_get (JObj attrs) ''errors'' (JList []) = Inr err"
      by (simp_all add: st_def fe_def fin_def out_def err_def)
    show ?thesis
      by (simp only: classify_def a sum_bind_Inr g)
  qed
  also have "\<dots> = Inr (spec_classification run)"
    unfolding fatal_check [OF fe(1)] status_check [OF st(1)] finished_check [OF fin(1)]
      outputs_check [OF out(1) err(1)] sum_bind_Inr
    by (auto simp add: spec_classification_def Let_def st(2) fe(2) out(2) err(2) fin(2))
  finally show ?thesis .
qed

lemma same_fields_same_rule: "same_fields a b \<Longrightarrow> spec_classification a = spec_classification b"
  by (simp add: same_fields_def spec_classification_def)

text \<open>
  Claim C1. For every run record, the classification that the poller computes is the one
  of the four-step precedence rule: errored when a fatalErrors entry is not null; else,
  with a non-empty status, completed or errored when the status reads so in any case of
  letters and no decision otherwise; else, with finishedAt present, completed when
  outputs is non-empty with no null entry and errors is empty or all null, and errored
  otherwise; else no decision. It is a function of the fields status, fatalErrors,
  finishedAt, outputs and errors alone: records that agree on them are classified alike.
\<close>

theorem classification_precedence:
  assumes "run_record run"
  shows "classify run = Inr (spec_classification run) \<and>
         (\<forall>run'. run_record run' \<and> same_fields run' run \<longrightarrow> classify run' = classify run)"
proof -
  have "classify run = Inr (spec_classification run)"
    using assms by (rule classify_follows_rule)
  moreover have "classify run' = classify run"
    if "run_record run'" "same_fields run' run" for run'
    using that assms
    by (simp add: classify_follows_rule same_fields_same_rule)
  ultimately show ?thesis by blast
qed

theorem classification_precedence_witness:
  "run_record
     (JObj [(''id'', JStr ''7''),
            (''attributes'',
             JObj [(''status'', JStr ''''), (''finishedAt'', JStr ''T''),
                   (''outputs'', JList [JNum 1, JNull]), (''errors'', JList [])])]) \<and>
   classify
     (JObj [(''id'', JStr ''7''),
            (''attributes'',
             JObj [(''status'', JStr ''''), (''finishedAt'', JStr ''T''),
                   (''outputs'', JList [JNum 1, JNull]), (''errors'', JList [])])])
   = Inr (Some ''errored'')"
proof -
  have h: "run_record
     (JObj [(''id'', JStr ''7''),
            (''attributes'',
             JObj [(''status'', JStr ''''), (''finishedAt'', JStr ''T''),
                   (''outputs'', JList [JNum 1, JNull]), (''errors'', JList [])])])"
    by (simp add: run_record_def field_def opt_timestamp_def)
  show ?thesis
    using h classification_precedence [OF h]
    by (simp add: spec_classification_def field_def)
qed

section \<open>Requests, the clock and the polling loop\<close>

declare poll_loop.simps [simp del]

lemma send_NetworkError:
  "net w = NetworkError # rest \<Longrightarrow>
   send rq w = (Raise RequestException, w\<lparr>net := rest, exchanges := (rq, NetworkError) # exchanges w\<rparr>)"
  by (simp add: send_def)

lemma send_Response:
  "net w = Response resp # rest \<Longrightarrow>
   send rq w = (Return resp, w\<lparr>net := rest, exchanges := (rq, Response resp) # exchanges w\<rparr>)"
  by (simp add: send_def)

lemma send_Stuck: "net w = [] \<Longrightarrow> send rq w = (Stuck, w)"
  by (simp add: send_def)

lemma now_tick:
  "clock w = t # later \<Longrightarrow> now w = (Return t, w\<lparr>clock := later, readings := t # readings w\<rparr>)"
  by (simp add: now_def)

lemma now_Stuck: "clock w = [] \<Longrightarrow> now w = (Stuck, w)"
  by (simp add: now_def)

lemma poll_loop_bad_status:
  "net w = Response resp # rest \<Longrightarrow> status_code resp \<noteq> 200 \<Longrightarrow>
   poll_loop R job_id job_run_id timeout start_time w =
   (Return None, w\<lparr>net := rest, exchanges := (GET (runs_url R job_id), Response resp) # exchanges w\<rparr>)"
  by (subst poll_loop.simps) (simp add: send_Response)

lemma poll_loop_network_error:
  "net w = NetworkError # rest \<Longrightarrow>
   poll_loop R job_id job_run_id timeout start_time w =
   (Raise RequestException,
    w\<lparr>net := rest, exchanges := (GET (runs_url R job_id), NetworkError) # exchanges w\<rparr>)"
  by (subst poll_loop.simps) (simp add: send_NetworkError)

lemma poll_loop_verdict:
  "net w = Response resp # rest \<Longrightarrow> status_code resp = 200 \<Longrightarrow>
   inspect_listing R job_run_id resp = Inr (Some v) \<Longrightarrow>
   poll_loop R job_id job_run_id timeout start_time w =
   (Return (Some v), w\<lparr>net := rest, exchanges := (GET (runs_url R job_id), Response resp) # exchanges w\<rparr>)"
  by (subst poll_loop.simps) (simp add: send_Response)

lemma poll_loop_pending:
  "net w = Response resp # rest \<Longrightarrow> status_code resp = 200 \<Longrightarrow>
   inspect_listing R job_run_id resp = Inr None \<Longrightarrow> clock w = t # later \<Longrightarrow>
   poll_loop R job_id job_run_id timeout start_time w =
   (let w2 = w\<lparr>net := rest, exchanges := (GET (runs_url R job_id), Response resp) # exchanges w,
                clock := later, readings := t # readings w\<rparr>
    in if t - start_time > timeout then (Return None, w2)
       else poll_loop R job_id job_run_id timeout start_time w2)"
  by (subst poll_loop.simps) (simp add: send_Response now_def)

lemma classify_values:
  "classify run = Inr (Some v) \<Longrightarrow> v = ''completed'' \<or> v = ''errored''"
  by (auto simp: classify_def sum_bind_def split: sum.splits if_splits)

lemma inspect_listing_values:
  "inspect_listing R job_run_id resp = Inr (Some v) \<Longrightarrow> v = ''completed'' \<or> v = ''errored''"
  by (auto simp: inspect_listing_def sum_bind_def split: sum.splits if_splits dest: classify_values)

lemma poll_loop_returns:
  "poll_loop R job_id job_run_id timeout start_time w = (Return v, w') \<Longrightarrow>
   \<exists>resp. last_response w' = Some resp \<and>
     (case v of
        None \<Rightarrow> status_code resp \<noteq> 200 \<or>
                (inspect_listing R job_run_id resp = Inr None \<and>
                 (\<exists>t. last_reading w' = Some t \<and> t - start_time > timeout))
      | Some x \<Rightarrow> status_code resp = 200 \<and> inspect_listing R job_run_id resp = Inr (Some x))"
proof (induction R job_id job_run_id timeout start_time w rule: poll_loop.induct)
  case (1 R job_id job_run_id timeout start_time w)
  show ?case
  proof (cases "net w")
    case Nil
    with "1.prems" show ?thesis
      by (subst (asm) poll_loop.simps) (simp add: send_Stuck)
  next
    case (Cons r rest)
    show ?thesis
    proof (cases r)
      case NetworkError
      with Cons "1.prems" show ?thesis
        by (simp add: poll_loop_network_error)
    next
      case (Response resp)
      note net = Cons [unfolded Response]
      let ?w1 = "w\<lparr>net := rest, exchanges := (GET (runs_url R job_id), Response resp) # exchanges w\<rparr>"
      show ?thesis
      proof (cases "status_code resp = 200")
        case False
        with net "1.prems" show ?thesis
          by (auto simp: poll_loop_bad_status last_response_def)
      next
        case True
        show ?thesis
        proof (cases "inspect_listing R job_run_id resp")
          case (Inl e)
          with net True "1.prems" show ?thesis
            by (subst (asm) poll_loop.simps) (simp add: send_Response)
        next
          case (Inr verdict)
          show ?thesis
          proof (cases verdict)
            case (Some x)
            with Inr net True "1.prems" show ?thesis
              by (auto simp: poll_loop_verdict last_response_def)
          next
            case None
            show ?thesis
            proof (cases "clock w")
              case Nil
              with None Inr net True "1.prems" show ?thesis
                by (subst (asm) poll_loop.simps) (simp add: send_Response now_def)
            next
              case (Cons t later)
              let ?w2 = "w\<lparr>net := rest, exchanges := (GET (runs_url R job_id), Response resp) # exchanges w,
                clock := later, readings := t # readings w\<rparr>"
              show ?thesis
              proof (cases "t - start_time > timeout")
                case tmo: True
                with Cons None Inr net True "1.prems" have "w' = ?w2" "v = None"
                  by (simp_all add: poll_loop_pending [OF net True Inr [unfolded None] Cons])
                with tmo None Inr True show ?thesis
                  by (simp add: last_response_def last_reading_def)
              next
                case cont: False
                have s: "send (GET (runs_url R job_id)) w = (Return resp, ?w1)"
                  by (rule send_Response [OF net])
                have n: "now ?w1 = (Return t, ?w2)"
                  using Cons by (simp add: now_def)
                from cont "1.prems" have "poll_loop R job_id job_run_id timeout start_time ?w2 = (Return v, w')"
                  by (simp add: poll_loop_pending [OF net True Inr [unfolded None] Cons])
                from "1.IH" [OF s [symmetric] refl True Inr None n [symmetric] refl cont this]
                show ?thesis .
              qed
            qed
          qed
        qed
      qed
    qed
  qed
qed

section \<open>When the poller gives up\<close>

text \<open>
  Claim C2, as the code has it. In every polling iteration (the loop starts each one at
  \<open>poll_loop\<close>) in which the run-listing query is answered with a non-2xx status, the
  poller returns None at once, after that one request and no other. When the query fails
  with a network error, no None is returned: the exception of the request leaves
  poll_run_status, again after that one request.
\<close>

theorem query_failure_aborts:
  assumes "net w = r # rest"
  shows
    "(\<forall>resp. r = Response resp \<and> \<not> (200 \<le> status_code resp \<and> status_code resp < 300) \<longrightarrow>
        poll_loop R job_id job_run_id timeout start_time w =
        (Return None,
         w\<lparr>net := rest, exchanges := (GET (runs_url R job_id), r) # exchanges w\<rparr>)) \<and>
     (r = NetworkError \<longrightarrow>
        poll_loop R job_id job_run_id timeout start_time w =
        (Raise RequestException,
         w\<lparr>net := rest, exchanges := (GET (runs_url R job_id), r) # exchanges w\<rparr>))"
  using assms by (auto simp: poll_loop_bad_status poll_loop_network_error)

theorem query_failure_aborts_witness:
  "poll_loop example_runtime (JStr ''J1'') (JStr ''7'') 60 0
     (example_world [answer 503 [], answer 200 ''<run 7 completed>''] [1, 2] None) =
   (Return None,
    (example_world [answer 200 ''<run 7 completed>''] [1, 2] None)
      \<lparr>exchanges := [(GET ''http://node/v2/jobs/J1/runs'', answer 503 [])]\<rparr>)"
proof -
  have h: "net (example_world [answer 503 [], answer 200 ''<run 7 completed>''] [1, 2] None) =
    answer 503 [] # [answer 200 ''<run 7 completed>'']"
    by (simp add: example_world_def)
  show ?thesis
    using query_failure_aborts [OF h, of example_runtime "JStr ''J1''" "JStr ''7''" 60 0]
    by (simp add: example_world_def answer_def runs_url_def example_runtime_def)
qed

text \<open>
  The claim as stated fails on a network error: the first query of this run of
  poll_run_status cannot reach the node, and the call raises instead of returning None.
\<close>

theorem network_error_propagates:
  "fst (poll_run_status example_runtime (JStr ''J1'') (JStr ''7'') (JStr ''clsession'') (JStr ''abc'') 60
     (example_world [NetworkError, answer 200 ''<run 7 completed>''] [0, 1, 2] None))
   = Raise RequestException \<and>
   fst (poll_run_status example_runtime (JStr ''J1'') (JStr ''7'') (JStr ''clsession'') (JStr ''abc'') 60
     (example_world [NetworkError, answer 200 ''<run 7 completed>''] [0, 1, 2] None))
   \<noteq> Return None"
  by (simp add: poll_run_status_def and_then_def now_def example_world_def poll_loop_network_error)

lemma poll_run_status_start:
  "clock w = start # later \<Longrightarrow>
   poll_run_status R job_id job_run_id cookie_name token timeout w =
   poll_loop R job_id job_run_id timeout start (w\<lparr>clock := later, readings := start # readings w\<rparr>)"
  by (simp add: poll_run_status_def and_then_def now_def)

lemma poll_times_out_example:
  "poll_run_status example_runtime (JStr ''J1'') (JStr ''7'') (JStr ''clsession'') (JStr ''abc'') 60
     (example_world [answer 200 ''<run 7 running>'', answer 200 ''<run 7 running>''] [0, 30, 61, 62] None)
   = (Return None,
      \<lparr>net = [], clock = [62], token_file = None, config_toml = Contents ''type = cron'',
       exchanges = [(GET ''http://node/v2/jobs/J1/runs'', answer 200 ''<run 7 running>''),
                    (GET ''http://node/v2/jobs/J1/runs'', answer 200 ''<run 7 running>'')],
       readings = [61, 30, 0]\<rparr>)"
  apply (simp add: poll_run_status_def and_then_def now_def example_world_def)
  apply (subst poll_loop.simps)
  apply (simp add: send_def now_def answer_def inspect_listing_def response_json_def
      example_runtime_def example_loads_def sum_bind_def classify_def lower_char_def runs_url_def)
  apply (subst poll_loop.simps)
  apply (simp add: send_def now_def answer_def inspect_listing_def response_json_def
      example_runtime_def example_loads_def sum_bind_def classify_def lower_char_def runs_url_def)
  done

text \<open>
  Claim C3, as the code has it. Whenever poll_run_status returns, it returns None exactly
  when its last query was answered with a status other than 200, or the listing of its
  last query gave no terminal classification and the clock reading taken after it
  exceeded the start time by more than the timeout. When it returns anything else, a
  200 listing was classified, and the value is that classification, completed or
  errored. And each of these exits is taken: an iteration whose query is answered with
  a status other than 200 returns None, one whose listing is classified returns the
  classification, and one whose listing is not, with the timeout exceeded, returns None.
\<close>

theorem unknown_iff_failure_or_timeout:
  assumes "poll_run_status R job_id job_run_id cookie_name token timeout w = (Return v, w')"
    and "clock w = start # later"
  shows "(\<exists>resp. last_response w' = Some resp \<and>
     (v = None \<longleftrightarrow>
        status_code resp \<noteq> 200 \<or>
        (inspect_listing R job_run_id resp = Inr None \<and>
         (\<exists>t. last_reading w' = Some t \<and> t - start > timeout))) \<and>
     (v \<noteq> None \<longrightarrow>
        status_code resp = 200 \<and> inspect_listing R job_run_id resp = Inr v \<and>
        (v = Some ''completed'' \<or> v = Some ''errored''))) \<and>
   (\<forall>u resp rest. net u = Response resp # rest \<longrightarrow>
     (status_code resp \<noteq> 200 \<longrightarrow>
        fst (poll_loop R job_id job_run_id timeout start u) = Return None) \<and>
     (\<forall>x. status_code resp = 200 \<and> inspect_listing R job_run_id resp = Inr (Some x) \<longrightarrow>
        fst (poll_loop R job_id job_run_id timeout start u) = Return (Some x) \<and>
        (x = ''completed'' \<or> x = ''errored'')) \<and>
     (\<forall>t coming. status_code resp = 200 \<and> inspect_listing R job_run_id resp = Inr None \<and>
        clock u = t # coming \<and> t - start > timeout \<longrightarrow>
        fst (poll_loop R job_id job_run_id timeout start u) = Return None))"
proof -
  from assms have "poll_loop R job_id job_run_id timeout start
      (w\<lparr>clock := later, readings := start # readings w\<rparr>) = (Return v, w')"
    by (simp add: poll_run_status_start)
  from poll_loop_returns [OF this] obtain resp where r: "last_response w' = Some resp"
    and c: "case v of
        None \<Rightarrow> status_code resp \<noteq> 200 \<or>
                (inspect_listing R job_run_id resp = Inr None \<and>
                 (\<exists>t. last_reading w' = Some t \<and> t - start > timeout))
      | Some x \<Rightarrow> status_code resp = 200 \<and> inspect_listing R job_run_id resp = Inr (Some x)"
    by blast
  have bwd: "\<exists>resp. last_response w' = Some resp \<and>
     (v = None \<longleftrightarrow>
        status_code resp \<noteq> 200 \<or>
        (inspect_listing R job_run_id resp = Inr None \<and>
         (\<exists>t. last_reading w' = Some t \<and> t - start > timeout))) \<and>
     (v \<noteq> None \<longrightarrow>
        status_code resp = 200 \<and> inspect_listing R job_run_id resp = Inr v \<and>
        (v = Some ''completed'' \<or> v = Some ''errored''))"
  proof (cases v)
    case None
    with r c show ?thesis by auto
  next
    case (Some x)
    with c have "x = ''completed'' \<or> x = ''errored''"
      by (auto dest: inspect_listing_values)
    with Some r c show ?thesis by auto
  qed
  have fwd: "(status_code resp \<noteq> 200 \<longrightarrow>
        fst (poll_loop R job_id job_run_id timeout start u) = Return None) \<and>
     (\<forall>x. status_code resp = 200 \<and> inspect_listing R job_run_id resp = Inr (Some x) \<longrightarrow>
        fst (poll_loop R job_id job_run_id timeout start u) = Return (Some x) \<and>
        (x = ''completed'' \<or> x = ''errored'')) \<and>
     (\<forall>t coming. status_code resp = 200 \<and> inspect_listing R job_run_id resp = Inr None \<and>
        clock u = t # coming \<and> t - start > timeout \<longrightarrow>
        fst (poll_loop R job_id job_run_id timeout start u) = Return None)"
    if n: "net u = Response resp # rest" for u resp rest
  proof (intro conjI allI impI)
    assume "status_code resp \<noteq> 200"
    then show "fst (poll_loop R job_id job_run_id timeout start u) = Return None"
      by (simp add: poll_loop_bad_status [OF n])
  next
    fix x
    assume a: "status_code resp = 200 \<and> inspect_listing R job_run_id resp = Inr (Some x)"
    then show "fst (poll_loop R job_id job_run_id timeout start u) = Return (Some x)"
      by (simp add: poll_loop_verdict [OF n])
    from a show "x = ''completed'' \<or> x = ''errored''"
      by (auto dest: inspect_listing_values)
  next
    fix t coming
    assume "status_code resp = 200 \<and> inspect_listing R job_run_id resp = Inr None \<and>
        clock u = t # coming \<and> t - start > timeout"
    then show "fst (poll_loop R job_id job_run_id timeout start u) = Return None"
      by (simp add: poll_loop_pending [OF n])
  qed
  from bwd fwd show ?thesis by blast
qed

theorem unknown_iff_failure_or_timeout_witness:
  "fst (poll_run_status example_runtime (JStr ''J1'') (JStr ''7'') (JStr ''clsession'') (JStr ''abc'') 60
     (example_world [answer 200 ''<run 7 running>'', answer 200 ''<run 7 running>''] [0, 30, 61, 62] None))
   = Return None \<and>
   inspect_listing example_runtime (JStr ''7'') \<lparr>status_code = 200, content = ''<run 7 running>'', cookies = []\<rparr>
   = Inr None \<and>
   (61::real) - 0 > 60"
proof -
  have c: "clock (example_world [answer 200 ''<run 7 running>'', answer 200 ''<run 7 running>'']
      [0, 30, 61, 62] None) = 0 # [30, 61, 62]"
    by (simp add: example_world_def)
  have p: "fst (poll_run_status example_runtime (JStr ''J1'') (JStr ''7'') (JStr ''clsession'')
      (JStr ''abc'') 60
      (example_world [answer 200 ''<run 7 running>'', answer 200 ''<run 7 running>'']
         [0, 30, 61, 62] None)) = Return None"
    by (simp add: poll_times_out_example)
  from unknown_iff_failure_or_timeout [OF poll_times_out_example c, THEN conjunct1]
  have "inspect_listing example_runtime (JStr ''7'')
      \<lparr>status_code = 200, content = ''<run 7 running>'', cookies = []\<rparr> = Inr None"
    by (simp add: last_response_def last_reading_def answer_def)
  with p show ?thesis by simp
qed

text \<open>
  The claim as stated fails where the query is answered with status 500: None is returned
  although the only clock reading taken is the start time, so no time has been found to
  exceed the timeout of 60.
\<close>

theorem unknown_without_timeout:
  "poll_run_status example_runtime (JStr ''J1'') (JStr ''7'') (JStr ''clsession'') (JStr ''abc'') 60
     (example_world [answer 500 []] [0, 1] None)
   = (Return None,
      \<lparr>net = [], clock = [1], token_file = None, config_toml = Contents ''type = cron'',
       exchanges = [(GET ''http://node/v2/jobs/J1/runs'', answer 500 [])],
       readings = [0]\<rparr>)"
  by (simp add: poll_run_status_def and_then_def now_def example_world_def poll_loop_bad_status
      answer_def runs_url_def example_runtime_def)

section \<open>The cached credential\<close>

lemma get_saved_token_hit:
  assumes "token_file w = Some txt" and "json_loads R txt = Some (JObj kvs)"
    and "map_of kvs ''token'' = Some token" and "truthy token"
    and "map_of kvs ''cookie_name'' = Some cookie_name" and "truthy cookie_name"
    and "map_of kvs ''expires'' = Some (JStr es)" and "es \<noteq> []"
    and "fromisoformat R es = Inr (Naive expiration)"
    and "clock w = n # later" and "n < expiration"
  shows "get_saved_token R w =
    (Return (cookie_name, token), w\<lparr>clock := later, readings := n # readings w\<rparr>)"
  using assms
  by (simp add: get_saved_token_def and_then_def lift_def now_def return_def)

lemma authenticate_hit:
  assumes "get_saved_token R w = (Return (cookie_name, token), w')"
    and "truthy token" and "truthy cookie_name"
  shows "authenticate R the_login w = (Return (cookie_name, token), w')"
  using assms
  by (simp add: authenticate_def and_then_def return_def)

text \<open>
  An expiry written with a UTC offset is read as an aware \<^verbatim>\<open>datetime\<close>, and the
  comparison with the clock raises: such a record is none that save_token writes.
\<close>

lemma get_saved_token_aware:
  assumes "token_file w = Some txt" and "json_loads R txt = Some (JObj kvs)"
    and "map_of kvs ''token'' = Some token" and "truthy token"
    and "map_of kvs ''cookie_name'' = Some cookie_name" and "truthy cookie_name"
    and "map_of kvs ''expires'' = Some (JStr es)" and "es \<noteq> []"
    and "fromisoformat R es = Inr (Aware expiration)"
    and "clock w = n # later"
  shows "get_saved_token R w =
    (Raise TypeError, w\<lparr>clock := later, readings := n # readings w\<rparr>)"
  using assms
  by (simp add: get_saved_token_def and_then_def lift_def now_def return_def)

lemma get_saved_token_aware_example:
  "fst (get_saved_token example_runtime
     (example_world [] [1000] (Some ''<credential with offset>''))) = Raise TypeError"
  by (simp add: get_saved_token_def and_then_def lift_def now_def return_def
      example_world_def example_runtime_def example_loads_def)

text \<open>
  Claim C4. For every persisted credential record whose expiry is strictly in the future
  and whose token and cookie name are present, the session manager (get_saved_token, and
  the authentication block of either script around it, whatever its login) returns the
  cached pair of cookie name and token; no request is made: the history of exchanges and
  the pending answers of the network are as before, and only the clock has been read.
  The expiry of a persisted record is the ISO text of a naive \<^verbatim>\<open>datetime\<close>, as
  save_token writes it (\<^verbatim>\<open>isoformat\<close> of \<^verbatim>\<open>fromtimestamp(x)\<close> or of \<^verbatim>\<open>now()\<close> plus an
  hour), so that it can be compared with the clock.
\<close>

theorem cached_credential_is_used:
  assumes "token_file w = Some txt" and "json_loads R txt = Some (JObj kvs)"
    and "map_of kvs ''token'' = Some token" and "truthy token"
    and "map_of kvs ''cookie_name'' = Some cookie_name" and "truthy cookie_name"
    and "map_of kvs ''expires'' = Some (JStr es)" and "es \<noteq> []"
    and "fromisoformat R es = Inr (Naive expiration)"
    and "clock w = n # later" and "n < expiration"
  shows "get_saved_token R w =
           (Return (cookie_name, token), w\<lparr>clock := later, readings := n # readings w\<rparr>) \<and>
         authenticate R the_login w =
           (Return (cookie_name, token), w\<lparr>clock := later, readings := n # readings w\<rparr>) \<and>
         exchanges (snd (authenticate R the_login w)) = exchanges w \<and>
         net (snd (authenticate R the_login w)) = net w"
proof -
  have g: "get_saved_token R w =
      (Return (cookie_name, token), w\<lparr>clock := later, readings := n # readings w\<rparr>)"
    using assms by (rule get_saved_token_hit)
  from authenticate_hit [OF g assms(4) assms(6)] g show ?thesis by simp
qed

theorem cached_credential_is_used_witness:
  "authenticate example_runtime (login example_runtime)
     (example_world [NetworkError] [1000, 1001] (Some ''<credential>'')) =
   (Return (JStr ''clsession'', JStr ''abc''),
    \<lparr>net = [NetworkError], clock = [1001], token_file = Some ''<credential>'',
     config_toml = Contents ''type = cron'', exchanges = [], readings = [1000]\<rparr>)"
proof -
  let ?w = "example_world [NetworkError] [1000, 1001] (Some ''<credential>'')"
  have "authenticate example_runtime (login example_runtime) ?w =
      (Return (JStr ''clsession'', JStr ''abc''), ?w\<lparr>clock := [1001], readings := 1000 # readings ?w\<rparr>)"
    using cached_credential_is_used [of ?w "''<credential>''" example_runtime
        "[(''cookie_name'', JStr ''clsession''), (''token'', JStr ''abc''),
               (''expires'', JStr ''<iso 2000>'')]" "JStr ''abc''" "JStr ''clsession''" "''<iso 2000>''" 2000 1000 "[1001]"
        "login example_runtime"]
    by (simp add: example_world_def example_runtime_def example_loads_def)
  then show ?thesis by (simp add: example_world_def)
qed

section \<open>Login\<close>


lemma save_token_world:
  "save_token R cookie_name token expiration w =
   (Return (),
    w\<lparr>token_file := Some (json_dumps R
       (JObj [(''cookie_name'', JStr cookie_name), (''token'', JStr token),
              (''expires'', JStr (isoformat R expiration))]))\<rparr>)"
  by (simp add: save_token_def Let_def and_then_def open_w_def file_write_def)

lemma expiration_of_cases:
  "expiration_of R c w =
   (case c_expires c of
      Some e \<Rightarrow>
        if e \<noteq> 0 then (case fromtimestamp R e of Inl x \<Rightarrow> (Raise x, w) | Inr t \<Rightarrow> (Return t, w))
        else (case clock w of [] \<Rightarrow> (Stuck, w)
              | n # later \<Rightarrow> (Return (n + 3600), w\<lparr>clock := later, readings := n # readings w\<rparr>))
    | None \<Rightarrow>
        (case clock w of [] \<Rightarrow> (Stuck, w)
         | n # later \<Rightarrow> (Return (n + 3600), w\<lparr>clock := later, readings := n # readings w\<rparr>)))"
  by (simp add: expiration_of_def lift_def and_then_def now_def return_def
      split: option.splits sum.splits list.splits)



lemma take_cookie_some:
  "cookies resp = c # cs \<Longrightarrow>
   take_cookie R resp w =
   (case expiration_of R c w of
      (Return expiration, w1) \<Rightarrow>
        (Return (JStr (c_name c), JStr (c_value c)),
         w1\<lparr>token_file := Some (json_dumps R
            (JObj [(''cookie_name'', JStr (c_name c)), (''token'', JStr (c_value c)),
                   (''expires'', JStr (isoformat R expiration))]))\<rparr>)
    | (Raise e, w1) \<Rightarrow> (Raise e, w1)
    | (Exit n, w1) \<Rightarrow> (Exit n, w1)
    | (Stuck, w1) \<Rightarrow> (Stuck, w1))"
  by (simp add: take_cookie_def and_then_def save_token_world return_def
      split: prod.splits outcome.splits)



lemma login_after_send:
  "net w = Response resp # rest \<Longrightarrow>
   login R w =
   (if status_code resp = 200
    then take_cookie R resp
           (w\<lparr>net := rest, exchanges := (POST (SESSION_URL R), Response resp) # exchanges w\<rparr>)
    else (Raise Exception,
          w\<lparr>net := rest, exchanges := (POST (SESSION_URL R), Response resp) # exchanges w\<rparr>))"
  by (simp add: login_def and_then_def send_Response raise_def)


lemma login_daj_after_send:
  "net w = Response resp # rest \<Longrightarrow>
   login_daj R w =
   (if 400 \<le> status_code resp \<and> status_code resp < 600
    then (Raise Exception,
          w\<lparr>net := rest, exchanges := (POST (SESSION_URL R), Response resp) # exchanges w\<rparr>)
    else (case take_cookie R resp
           (w\<lparr>net := rest, exchanges := (POST (SESSION_URL R), Response resp) # exchanges w\<rparr>) of
            (Raise e, w') \<Rightarrow> (Raise Exception, w')
          | other \<Rightarrow> other))"
  by (auto simp: login_daj_def try_except_def and_then_def send_Response raise_for_status_def
      raise_def return_def split: prod.splits outcome.splits)





text \<open>
  Claim C6. On every successful login, of either script, the expiry written to the
  credential file is the cookie's own when the cookie carries one, and otherwise the
  clock reading plus one hour; and whatever the file held before (if it existed at all),
  it then holds exactly the one new record of cookie name, token and expiry. A cookie in
  the jar of a response has not expired, so its expiry, when it carries one, is not the
  epoch itself (0).
\<close>

theorem login_persists_credential:
  assumes "net w = Response resp # rest" and "cookies resp = c # cs"
    and "c_expires c \<noteq> Some 0"
    and "login R w = (Return v, w') \<or> login_daj R w = (Return v, w')"
  shows "\<exists>expiration.
     token_file w' = Some (json_dumps R
       (JObj [(''cookie_name'', JStr (c_name c)), (''token'', JStr (c_value c)),
              (''expires'', JStr (isoformat R expiration))])) \<and>
     (\<forall>e. c_expires c = Some e \<longrightarrow> fromtimestamp R e = Inr expiration) \<and>
     (c_expires c = None \<longrightarrow> (\<exists>n later. clock w = n # later \<and> expiration = n + 3600))"
proof -
  let ?w1 = "w\<lparr>net := rest, exchanges := (POST (SESSION_URL R), Response resp) # exchanges w\<rparr>"
  from assms(4) have t: "take_cookie R resp ?w1 = (Return v, w')"
    by (auto simp: login_after_send [OF assms(1)] login_daj_after_send [OF assms(1)]
        split: if_splits prod.splits outcome.splits)
  then obtain expiration w2 where e: "expiration_of R c ?w1 = (Return expiration, w2)"
    and w': "w' = w2\<lparr>token_file := Some (json_dumps R
            (JObj [(''cookie_name'', JStr (c_name c)), (''token'', JStr (c_value c)),
                   (''expires'', JStr (isoformat R expiration))]))\<rparr>"
    by (auto simp: take_cookie_some [OF assms(2)] split: prod.splits outcome.splits)
  from e assms(3) have
    "(\<forall>e. c_expires c = Some e \<longrightarrow> fromtimestamp R e = Inr expiration) \<and>
     (c_expires c = None \<longrightarrow> (\<exists>n later. clock w = n # later \<and> expiration = n + 3600))"
    by (auto simp: expiration_of_cases split: option.splits sum.splits list.splits if_splits)
  with w' show ?thesis by auto
qed

theorem login_persists_credential_witness:
  "token_file (snd (login example_runtime
     (example_world [Response \<lparr>status_code = 200, content = [],
        cookies = [\<lparr>c_name = ''clsession'', c_value = ''abc'', c_expires = Some 5000\<rparr>]\<rparr>] [1000]
        (Some ''<credential>''))))
   = Some (json_dumps example_runtime
       (JObj [(''cookie_name'', JStr ''clsession''), (''token'', JStr ''abc''),
              (''expires'', JStr (isoformat example_runtime 5000))]))"
proof -
  let ?c = "\<lparr>c_name = ''clsession'', c_value = ''abc'', c_expires = Some 5000\<rparr>"
  let ?resp = "\<lparr>status_code = 200, content = [], cookies = [?c]\<rparr>"
  let ?w = "example_world [Response ?resp] [1000] (Some ''<credential>'')"
  have n: "net ?w = Response ?resp # []" by (simp add: example_world_def)
  have c: "cookies ?resp = ?c # []" and z: "c_expires ?c \<noteq> Some 0" by simp_all
  obtain v w' where l: "login example_runtime ?w = (Return v, w')"
    by (simp add: login_after_send [OF n] take_cookie_some [OF c] expiration_of_cases lift_def example_runtime_def)
  from login_persists_credential [OF n c z disjI1 [OF l]] l show ?thesis
    by (auto simp: example_runtime_def)
qed

section \<open>Request failures in the API operations\<close>

lemma delete_job_response:
  "net w = Response resp # rest \<Longrightarrow>
   delete_job R cookie_name token job_id w =
   (Return (), w\<lparr>net := rest, exchanges := (DELETE (job_endpoint R job_id), Response resp) # exchanges w\<rparr>)"
  by (simp add: delete_job_def and_then_def send_Response return_def)

lemma delete_job_network_error:
  "net w = NetworkError # rest \<Longrightarrow>
   delete_job R cookie_name token job_id w =
   (Raise RequestException,
    w\<lparr>net := rest, exchanges := (DELETE (job_endpoint R job_id), NetworkError) # exchanges w\<rparr>)"
  by (simp add: delete_job_def and_then_def send_NetworkError)

lemma delete_job_daj_response:
  "net w = Response resp # rest \<Longrightarrow>
   delete_job_daj R cookie_name token job_id w =
   (Return (status_code resp = 200 \<or> status_code resp = 204),
    w\<lparr>net := rest, exchanges := (DELETE (job_endpoint R job_id), Response resp) # exchanges w\<rparr>)"
  by (simp add: delete_job_daj_def try_except_def and_then_def send_Response return_def)

lemma delete_job_daj_network_error:
  "net w = NetworkError # rest \<Longrightarrow>
   delete_job_daj R cookie_name token job_id w =
   (Return False,
    w\<lparr>net := rest, exchanges := (DELETE (job_endpoint R job_id), NetworkError) # exchanges w\<rparr>)"
  by (simp add: delete_job_daj_def try_except_def and_then_def send_NetworkError return_def
      is_request_exception_def)

lemma list_job_ids_network_error:
  "net w = NetworkError # rest \<Longrightarrow>
   list_job_ids R cookie_name token w =
   (Return [], w\<lparr>net := rest, exchanges := (GET (jobs_url R), NetworkError) # exchanges w\<rparr>)"
  by (simp add: list_job_ids_def try_except_def and_then_def send_NetworkError return_def
      is_request_exception_def)

lemma list_job_ids_http_error:
  "net w = Response resp # rest \<Longrightarrow> 400 \<le> status_code resp \<Longrightarrow> status_code resp < 600 \<Longrightarrow>
   list_job_ids R cookie_name token w =
   (Return [], w\<lparr>net := rest, exchanges := (GET (jobs_url R), Response resp) # exchanges w\<rparr>)"
  by (simp add: list_job_ids_def try_except_def and_then_def send_Response return_def
      raise_for_status_def raise_def is_request_exception_def)

lemma list_job_ids_not_json:
  "net w = Response resp # rest \<Longrightarrow> \<not> (400 \<le> status_code resp \<and> status_code resp < 600) \<Longrightarrow>
   json_loads R (content resp) = None \<Longrightarrow>
   list_job_ids R cookie_name token w =
   (Return [], w\<lparr>net := rest, exchanges := (GET (jobs_url R), Response resp) # exchanges w\<rparr>)"
  by (simp add: list_job_ids_def try_except_def and_then_def send_Response return_def
      raise_for_status_def raise_def is_request_exception_def response_json_def lift_def)

lemma list_job_ids_no_jobs:
  "net w = Response resp # rest \<Longrightarrow> \<not> (400 \<le> status_code resp \<and> status_code resp < 600) \<Longrightarrow>
   json_loads R (content resp) = Some (JObj [(''data'', JList [])]) \<Longrightarrow>
   list_job_ids R cookie_name token w =
   (Return [], w\<lparr>net := rest, exchanges := (GET (jobs_url R), Response resp) # exchanges w\<rparr>)"
  by (simp add: list_job_ids_def try_except_def and_then_def send_Response return_def
      raise_for_status_def raise_def is_request_exception_def response_json_def lift_def)

lemma list_jobs_bad_status:
  "net w = Response resp # rest \<Longrightarrow> status_code resp \<noteq> 200 \<Longrightarrow>
   fst (list_jobs R cookie_name token w) = Return ()"
  by (simp add: list_jobs_def and_then_def send_Response return_def)

lemma list_jobs_network_error:
  "net w = NetworkError # rest \<Longrightarrow> fst (list_jobs R cookie_name token w) = Raise RequestException"
  by (simp add: list_jobs_def and_then_def send_NetworkError)

lemma create_job_bad_status:
  "net w = Response resp # rest \<Longrightarrow> status_code resp \<noteq> 200 \<Longrightarrow> status_code resp \<noteq> 201 \<Longrightarrow>
   fst (create_job R cookie_name token w) = Return JNull"
  by (simp add: create_job_def and_then_def send_Response return_def split: file_read.splits)

lemma create_job_network_error:
  "net w = NetworkError # rest \<Longrightarrow> config_toml w = Contents toml_spec \<Longrightarrow>
   fst (create_job R cookie_name token w) = Raise RequestException"
  by (simp add: create_job_def and_then_def send_NetworkError)

lemma run_job_bad_status:
  "net w = Response resp # rest \<Longrightarrow> status_code resp \<noteq> 200 \<Longrightarrow> status_code resp \<noteq> 201 \<Longrightarrow>
   fst (run_job R job_id cookie_name token w) = Return False"
  by (simp add: run_job_def and_then_def send_Response return_def)

lemma run_job_network_error:
  "net w = NetworkError # rest \<Longrightarrow>
   fst (run_job R job_id cookie_name token w) = Raise RequestException"
  by (simp add: run_job_def and_then_def send_NetworkError)

text \<open>
  Claim C7, as the code has it. In delete_all_jobs.py, list_job_ids and delete_job catch
  the failure of their request, a network error as well as a bad status, and turn it
  into an empty list or False. In main.py each operation (list, create, run, delete,
  poll) turns a response with a non-2xx status into its negative result, but makes its
  request outside any \<^verbatim>\<open>try\<close>: a network error leaves the operation as the request's
  exception.
\<close>

theorem request_failures_by_operation:
  assumes "net w = r # rest"
  shows
    "(r = NetworkError \<or>
      (\<exists>resp. r = Response resp \<and> 400 \<le> status_code resp \<and> status_code resp < 600) \<longrightarrow>
        fst (list_job_ids R cookie_name token w) = Return []) \<and>
     (r = NetworkError \<or>
      (\<exists>resp. r = Response resp \<and> \<not> (200 \<le> status_code resp \<and> status_code resp < 300)) \<longrightarrow>
        fst (delete_job_daj R cookie_name token job_id w) = Return False) \<and>
     (\<forall>resp. r = Response resp \<and> \<not> (200 \<le> status_code resp \<and> status_code resp < 300) \<longrightarrow>
        fst (list_jobs R cookie_name token w) = Return () \<and>
        fst (create_job R cookie_name token w) = Return JNull \<and>
        fst (run_job R job_id cookie_name token w) = Return False \<and>
        fst (delete_job R cookie_name token job_id w) = Return () \<and>
        fst (poll_loop R job_id job_run_id timeout start_time w) = Return None) \<and>
     (r = NetworkError \<longrightarrow>
        fst (list_jobs R cookie_name token w) = Raise RequestException \<and>
        (\<forall>toml_spec. config_toml w = Contents toml_spec \<longrightarrow>
           fst (create_job R cookie_name token w) = Raise RequestException) \<and>
        fst (run_job R job_id cookie_name token w) = Raise RequestException \<and>
        fst (delete_job R cookie_name token job_id w) = Raise RequestException \<and>
        fst (poll_loop R job_id job_run_id timeout start_time w) = Raise RequestException)"
proof (cases r)
  case NetworkError
  with assms show ?thesis
    by (simp add: list_job_ids_network_error delete_job_daj_network_error list_jobs_network_error
        create_job_network_error run_job_network_error delete_job_network_error
        poll_loop_network_error)
next
  case (Response resp)
  note n = assms [unfolded Response]
  have a: "400 \<le> status_code resp \<and> status_code resp < 600 \<longrightarrow>
      fst (list_job_ids R cookie_name token w) = Return []"
    by (simp add: list_job_ids_http_error [OF n])
  have b: "\<not> (200 \<le> status_code resp \<and> status_code resp < 300) \<longrightarrow>
      fst (delete_job_daj R cookie_name token job_id w) = Return False"
    by (auto simp: delete_job_daj_response [OF n])
  have c: "\<not> (200 \<le> status_code resp \<and> status_code resp < 300) \<longrightarrow>
        fst (list_jobs R cookie_name token w) = Return () \<and>
        fst (create_job R cookie_name token w) = Return JNull \<and>
        fst (run_job R job_id cookie_name token w) = Return False \<and>
        fst (delete_job R cookie_name token job_id w) = Return () \<and>
        fst (poll_loop R job_id job_run_id timeout start_time w) = Return None"
    by (auto simp: list_jobs_bad_status [OF n] create_job_bad_status [OF n]
        run_job_bad_status [OF n] delete_job_response [OF n] poll_loop_bad_status [OF n])
  from a b c Response show ?thesis by simp
qed

theorem request_failures_by_operation_witness:
  "fst (delete_job_daj example_runtime (JStr ''clsession'') (JStr ''abc'') (JStr ''J1'')
     (example_world [NetworkError] [] None)) = Return False \<and>
   fst (list_job_ids example_runtime (JStr ''clsession'') (JStr ''abc'')
     (example_world [NetworkError] [] None)) = Return [] \<and>
   fst (run_job example_runtime (JStr ''J1'') (JStr ''clsession'') (JStr ''abc'')
     (example_world [NetworkError] [] None)) = Raise RequestException"
proof -
  have n: "net (example_world [NetworkError] [] None) = NetworkError # []"
    by (simp add: example_world_def)
  show ?thesis
    using request_failures_by_operation [OF n, of example_runtime "JStr ''clsession''" "JStr ''abc''"
        "JStr ''J1''"]
    by simp
qed

text \<open>
  The claim as stated fails for delete_job of main.py when the node cannot be reached:
  the request's exception propagates to the caller.
\<close>

theorem main_delete_job_raises:
  "fst (delete_job example_runtime (JStr ''clsession'') (JStr ''abc'') (JStr ''J1'')
     (example_world [NetworkError] [] None)) = Raise RequestException"
  by (simp add: delete_job_network_error example_world_def)

text \<open>
  Claim C8. Whatever status the server answers a delete request with, as it does with a
  non-2xx status for a job that does not exist, delete_job returns normally: nothing in
  main.py, and in delete_all_jobs.py whether the status was 200 or 204. Deleting the
  same job a second time returns normally as well.
\<close>

theorem delete_job_never_crashes:
  assumes "net w = Response resp # Response resp' # rest"
  shows "fst (delete_job R cookie_name token job_id w) = Return () \<and>
         fst (delete_job_daj R cookie_name token job_id w) =
           Return (status_code resp = 200 \<or> status_code resp = 204) \<and>
         fst (and_then (delete_job R cookie_name token job_id)
                (\<lambda>_. delete_job R cookie_name token job_id) w) = Return () \<and>
         fst (and_then (delete_job_daj R cookie_name token job_id)
                (\<lambda>_. delete_job_daj R cookie_name token job_id) w) =
           Return (status_code resp' = 200 \<or> status_code resp' = 204)"
  using assms
  by (simp add: delete_job_response delete_job_daj_response and_then_def)

theorem delete_job_never_crashes_witness:
  "fst (and_then (delete_job_daj example_runtime (JStr ''clsession'') (JStr ''abc'') (JStr ''J1''))
          (\<lambda>_. delete_job_daj example_runtime (JStr ''clsession'') (JStr ''abc'') (JStr ''J1''))
          (example_world [answer 204 [], answer 404 []] [] None)) = Return False \<and>
   fst (and_then (delete_job example_runtime (JStr ''clsession'') (JStr ''abc'') (JStr ''J1''))
          (\<lambda>_. delete_job example_runtime (JStr ''clsession'') (JStr ''abc'') (JStr ''J1''))
          (example_world [answer 204 [], answer 404 []] [] None)) = Return ()"
proof -
  have n: "net (example_world [answer 204 [], answer 404 []] [] None) =
      Response \<lparr>status_code = 204, content = [], cookies = []\<rparr> #
      Response \<lparr>status_code = 404, content = [], cookies = []\<rparr> # []"
    by (simp add: example_world_def answer_def)
  show ?thesis
    using delete_job_never_crashes [OF n, of example_runtime "JStr ''clsession''" "JStr ''abc''"
        "JStr ''J1''"]
    by simp
qed

section \<open>Exit codes\<close>

lemma inspect_completed_example:
  "inspect_listing example_runtime (JStr ''7'')
     \<lparr>status_code = 200, content = ''<run 7 completed>'', cookies = []\<rparr> = Inr (Some ''completed'')"
  by (simp add: inspect_listing_def response_json_def example_runtime_def example_loads_def
      sum_bind_def classify_def lower_char_def)

lemma main_completes_example:
  "main example_runtime False
     (example_world
        [answer 200 [], answer 200 ''<job J1>'', answer 200 ''<run 7>'',
         answer 200 ''<run 7 completed>'', answer 204 []]
        [1000, 1001] (Some ''<credential>''))
   = (Return True,
      \<lparr>net = [], clock = [], token_file = Some ''<credential>'',
       config_toml = Contents ''type = cron'',
       exchanges =
         [(DELETE ''http://node/v2/jobs/J1'', answer 204 []),
          (GET ''http://node/v2/jobs/J1/runs'', answer 200 ''<run 7 completed>''),
          (POST ''http://node/v2/jobs/J1/runs'', answer 200 ''<run 7>''),
          (POST ''http://node/v2/jobs'', answer 200 ''<job J1>''),
          (GET ''http://node'', answer 200 [])],
       readings = [1001, 1000]\<rparr>)"
  apply (simp add: main_def and_then_def try_except_def send_def example_world_def answer_def
      raise_for_status_def return_def raise_def authenticate_def get_saved_token_def lift_def now_def
      example_runtime_def example_loads_def create_job_def response_json_def run_job_def
      sum_bind_def poll_run_status_def jobs_url_def runs_url_def job_endpoint_def delete_job_def)
  apply (subst poll_loop.simps)
  apply (simp add: send_def inspect_listing_def response_json_def sum_bind_def classify_def
      example_loads_def lower_char_def runs_url_def and_then_def return_def delete_job_def job_endpoint_def)
  done



text \<open>
  Claim C9. Every execution of main.py that reaches the end of main exits with code 1,
  whatever value main's own \<^verbatim>\<open>STATUS\<close> had at that point: the assignment inside main
  binds main's parameter, and the module's \<^verbatim>\<open>STATUS\<close>, tested after main returns, is
  still the initial False.
\<close>

theorem exit_code_is_always_one:
  assumes "main R False w = (Return local_status, w')"
  shows "main_py R w = (Some 1, w')"
  using assms by (simp add: main_py_def)

theorem exit_code_is_always_one_witness:
  "fst (main example_runtime False
     (example_world
        [answer 200 [], answer 200 ''<job J1>'', answer 200 ''<run 7>'',
         answer 200 ''<run 7 completed>'', answer 204 []]
        [1000, 1001] (Some ''<credential>''))) = Return True \<and>
   fst (main_py example_runtime
     (example_world
        [answer 200 [], answer 200 ''<job J1>'', answer 200 ''<run 7>'',
         answer 200 ''<run 7 completed>'', answer 204 []]
        [1000, 1001] (Some ''<credential>''))) = Some 1"
  using exit_code_is_always_one [OF main_completes_example]
  by (simp add: main_completes_example)

lemma main_daj_no_ids:
  assumes "authenticate R (login_daj R) w = (Return (cookie_name, token), w1)"
    and "list_job_ids R cookie_name token w1 = (Return [], w2)"
  shows "delete_all_jobs_py R w = (Some 0, w2)"
  using assms
  by (simp add: delete_all_jobs_py_def main_daj_def and_then_def sys_exit_def)

text \<open>
  Claim C10. In delete_all_jobs.py, once main is authenticated, a listing that fails (a
  network error, an error status, or a body that is not JSON) makes list_job_ids return
  the empty list, and the process exits with status 0, exactly as it does when the
  listing succeeds and holds no job.
\<close>

theorem failed_listing_exits_zero:
  assumes "authenticate R (login_daj R) w = (Return (cookie_name, token), w1)"
    and "net w1 = r # rest"
  shows
    "(r = NetworkError \<or>
      (\<exists>resp. r = Response resp \<and>
         ((400 \<le> status_code resp \<and> status_code resp < 600) \<or>
          json_loads R (content resp) = None)) \<longrightarrow>
        fst (list_job_ids R cookie_name token w1) = Return [] \<and>
        fst (delete_all_jobs_py R w) = Some 0) \<and>
     (\<forall>resp. r = Response resp \<and> \<not> (400 \<le> status_code resp \<and> status_code resp < 600) \<and>
         json_loads R (content resp) = Some (JObj [(''data'', JList [])]) \<longrightarrow>
        fst (list_job_ids R cookie_name token w1) = Return [] \<and>
        fst (delete_all_jobs_py R w) = Some 0)"
proof (cases r)
  case NetworkError
  note n = assms(2) [unfolded NetworkError]
  from main_daj_no_ids [OF assms(1) list_job_ids_network_error [OF n]] NetworkError
  show ?thesis by (simp add: list_job_ids_network_error [OF n])
next
  case (Response resp)
  note n = assms(2) [unfolded Response]
  have a: "fst (list_job_ids R cookie_name token w1) = Return [] \<and>
      fst (delete_all_jobs_py R w) = Some 0"
    if "400 \<le> status_code resp \<and> status_code resp < 600"
    using that main_daj_no_ids [OF assms(1) list_job_ids_http_error [OF n]]
    by (simp add: list_job_ids_http_error [OF n])
  have b: "fst (list_job_ids R cookie_name token w1) = Return [] \<and>
      fst (delete_all_jobs_py R w) = Some 0"
    if "\<not> (400 \<le> status_code resp \<and> status_code resp < 600)"
      "json_loads R (content resp) = None"
    using main_daj_no_ids [OF assms(1) list_job_ids_not_json [OF n that]]
    by (simp add: list_job_ids_not_json [OF n that])
  have c: "fst (list_job_ids R cookie_name token w1) = Return [] \<and>
      fst (delete_all_jobs_py R w) = Some 0"
    if "\<not> (400 \<le> status_code resp \<and> status_code resp < 600)"
      "json_loads R (content resp) = Some (JObj [(''data'', JList [])])"
    using main_daj_no_ids [OF assms(1) list_job_ids_no_jobs [OF n that]]
    by (simp add: list_job_ids_no_jobs [OF n that])
  from a b c Response show ?thesis by blast
qed

lemma authenticate_example:
  "authenticate example_runtime (login_daj example_runtime)
     (example_world [answer 200 ''not json''] [1000] (Some ''<credential>'')) =
   (Return (JStr ''clsession'', JStr ''abc''),
    \<lparr>net = [answer 200 ''not json''], clock = [], token_file = Some ''<credential>'',
     config_toml = Contents ''type = cron'', exchanges = [], readings = [1000]\<rparr>)"
  by (simp add: authenticate_def and_then_def get_saved_token_def lift_def now_def return_def
      example_world_def example_runtime_def example_loads_def)

theorem failed_listing_exits_zero_witness:
  "fst (delete_all_jobs_py example_runtime
     (example_world [answer 200 ''not json''] [1000] (Some ''<credential>''))) = Some 0"
proof -
  have n: "net \<lparr>net = [answer 200 ''not json''], clock = [], token_file = Some ''<credential>'',
     config_toml = Contents ''type = cron'', exchanges = [], readings = [1000]\<rparr> =
     answer 200 ''not json'' # []"
    by simp
  show ?thesis
    using failed_listing_exits_zero [OF authenticate_example n]
    by (simp add: answer_def example_runtime_def example_loads_def)
qed

end
